theory Spec2Isabelle
  imports Complex_Main "HOL-Library.Multiset"
begin

section \<open>The event list of threeML/plugins/OGIP/eventlist.py\<close>

text \<open>
  A shallow embedding of \<^verbatim>\<open>EventList\<close> and of the module function
  \<^verbatim>\<open>intervals_overlap\<close>. Times, dead times and log-likelihoods are Python floats in
  the source; here they are real numbers, so comparisons are the source's and sums are
  exact (rounding, infinities and NaN are outside the model, except where a division by
  zero is made explicit). An attribute that the constructor does not create is an
  \<open>option\<close> field: \<open>None\<close> is "the attribute does not exist yet", and reading it raises
  \<open>AttributeError\<close>. A raised exception is a value, returned together with the object as
  the exception leaves it.
\<close>

subsection \<open>Exceptions and results\<close>

datatype error =
    RuntimeError
  | OverLappingIntervals
  | AssertionError
  | AttributeError
  | IndexError
  | TypeError
  | ValueError
  | NotImplementedError
  | FitFailure

datatype 'a outcome = Return (returned: 'a) | Raise error

subsection \<open>Parsing a time interval\<close>

text \<open>
  \<^verbatim>\<open>re.match('(\-?\+?[0-9]+\.?[0-9]*)\s*-\s*(\-?\+?[0-9]+\.?[0-9]*)', time_interval).groups()\<close>
  followed by \<^verbatim>\<open>map(float, tokens)\<close>. Every quantifier of the expression is greedy and
  none can give a character back to what follows it (a digit, a dot, a blank and the
  signs are disjoint classes), so the match is the left-to-right scan below. No match
  makes \<^verbatim>\<open>re.match\<close> return \<^verbatim>\<open>None\<close>, whose \<^verbatim>\<open>.groups()\<close> raises AttributeError.
\<close>

definition is_digit :: "char \<Rightarrow> bool" where
  "is_digit c = (c \<in> set ''0123456789'')"

definition is_space :: "char \<Rightarrow> bool" where
  "is_space c = (c \<in> set [CHR '' '', CHR 0x09, CHR 0x0A, CHR 0x0B, CHR 0x0C, CHR 0x0D])"

definition opt_char :: "char \<Rightarrow> string \<Rightarrow> string \<times> string" where
  "opt_char c s = (case s of [] \<Rightarrow> ([], s) | d # r \<Rightarrow> if d = c then ([d], r) else ([], s))"

text \<open>One group \<^verbatim>\<open>(\-?\+?[0-9]+\.?[0-9]*)\<close>: the token and the rest of the text.\<close>

definition match_number :: "string \<Rightarrow> (string \<times> string) option" where
  "match_number s =
     (let (minus, s1) = opt_char (CHR ''-'') s;
          (plus, s2) = opt_char (CHR ''+'') s1;
          ds = takeWhile is_digit s2;
          s3 = dropWhile is_digit s2
      in if ds = [] then None
         else let (dot, s4) = opt_char (CHR ''.'') s3;
                  fs = takeWhile is_digit s4;
                  s5 = dropWhile is_digit s4
              in Some (minus @ plus @ ds @ dot @ fs, s5))"

definition digit_val :: "char \<Rightarrow> nat" where
  "digit_val c = length (takeWhile (\<lambda>d. d \<noteq> c) ''0123456789'')"

definition digits_val :: "string \<Rightarrow> nat" where
  "digits_val ds = foldl (\<lambda>acc c. 10 * acc + digit_val c) 0 ds"

text \<open>
  \<^verbatim>\<open>float(token)\<close> on a token of the shape the group matches: one sign at most (a token
  that starts \<^verbatim>\<open>-+\<close> raises ValueError), digits, an optional dot, digits.
\<close>

definition unsigned_float :: "string \<Rightarrow> error + real" where
  "unsigned_float s =
     (let ds = takeWhile is_digit s; r = dropWhile is_digit s
      in if ds = [] then Inl ValueError
         else (case r of
                 [] \<Rightarrow> Inr (real (digits_val ds))
               | d # fs \<Rightarrow>
                   if d = CHR ''.'' \<and> list_all is_digit fs
                   then Inr (real (digits_val ds) + real (digits_val fs) / 10 ^ length fs)
                   else Inl ValueError))"

definition py_float :: "string \<Rightarrow> error + real" where
  "py_float s =
     (case s of
        [] \<Rightarrow> Inl ValueError
      | c # r \<Rightarrow>
          if c = CHR ''-'' then map_sum id uminus (unsigned_float r)
          else if c = CHR ''+'' then unsigned_float r
          else unsigned_float s)"

definition parse_time_interval :: "string \<Rightarrow> error + (real \<times> real)" where
  "parse_time_interval time_interval =
     (case match_number time_interval of
        None \<Rightarrow> Inl AttributeError
      | Some (t1, r1) \<Rightarrow>
          (case dropWhile is_space r1 of
             [] \<Rightarrow> Inl AttributeError
           | c # r2 \<Rightarrow>
               if c \<noteq> CHR ''-'' then Inl AttributeError
               else (case match_number (dropWhile is_space r2) of
                       None \<Rightarrow> Inl AttributeError
                     | Some (t2, r3) \<Rightarrow>
                         (case py_float t1 of
                            Inl e \<Rightarrow> Inl e
                          | Inr a \<Rightarrow>
                              (case py_float t2 of
                                 Inl e \<Rightarrow> Inl e
                               | Inr b \<Rightarrow> Inr (a, b))))))"

subsection \<open>The overlap check\<close>

text \<open>
  \<^verbatim>\<open>list.pop(i)\<close> on a copy: the element at \<open>i\<close> and the list without it, IndexError
  when \<open>i\<close> is out of range.
\<close>

definition pop :: "'a list \<Rightarrow> nat \<Rightarrow> error + ('a \<times> 'a list)" where
  "pop xs i = (if i < length xs then Inr (xs ! i, take i xs @ drop (Suc i) xs) else Inl IndexError)"

text \<open>
  The inner loop over \<^verbatim>\<open>zip(throw_away_tmin, throw_away_tmax)\<close>: \<open>True\<close> when one of its
  two \<^verbatim>\<open>return True\<close> statements is reached, \<open>False\<close> when the loop runs to its end.
\<close>

fun inner_loop :: "real \<Rightarrow> real \<Rightarrow> (real \<times> real) list \<Rightarrow> bool" where
  "inner_loop this_min this_max [] = False"
| "inner_loop this_min this_max ((mn, mx) # rest) =
     (if this_min < mn \<and> mn < this_max then True
      else if this_min < mx \<and> mx < this_max then True
      else inner_loop this_min this_max rest)"

text \<open>
  The outer loop \<^verbatim>\<open>for i in range(n_intervals)\<close>. Its body ends in an unconditional
  \<^verbatim>\<open>return False\<close>, so the body runs for the first index only and the remaining indices
  are never visited. With no interval at all the loop body never runs and the function
  returns \<^verbatim>\<open>None\<close>.
\<close>

fun outer_loop :: "nat list \<Rightarrow> real list \<Rightarrow> real list \<Rightarrow> error + bool option" where
  "outer_loop [] tmin tmax = Inr None"
| "outer_loop (i # later) tmin tmax =
     (case pop tmin i of
        Inl e \<Rightarrow> Inl e
      | Inr (this_min, throw_away_tmin) \<Rightarrow>
          (case pop tmax i of
             Inl e \<Rightarrow> Inl e
           | Inr (this_max, throw_away_tmax) \<Rightarrow>
               if inner_loop this_min this_max (zip throw_away_tmin throw_away_tmax)
               then Inr (Some True)
               else Inr (Some False)))"

definition intervals_overlap :: "real list \<Rightarrow> real list \<Rightarrow> error + bool option" where
  "intervals_overlap tmin tmax = outer_loop [0 ..< length tmin] tmin tmax"

text \<open>
  The spec's words for the check (section 4.1): "for every interval, compares against all
  others excluding itself; returns true if another interval's bound strictly falls inside
  this interval's open range".
\<close>

definition strictly_inside :: "real \<Rightarrow> real \<times> real \<Rightarrow> bool" where
  "strictly_inside x iv = (fst iv < x \<and> x < snd iv)"

definition overlaps_spec :: "(real \<times> real) list \<Rightarrow> bool" where
  "overlaps_spec ivs =
     list_ex (\<lambda>i. list_ex (\<lambda>j. i \<noteq> j \<and>
        (strictly_inside (fst (ivs ! j)) (ivs ! i) \<or> strictly_inside (snd (ivs ! j)) (ivs ! i)))
        [0 ..< length ivs]) [0 ..< length ivs]"

subsection \<open>The data model\<close>

text \<open>
  Modelled from the spec: the Polynomial Model of \<^verbatim>\<open>event_polynomial\<close> (not among the
  sources) "exposes coefficients, coefficient covariance/error, a definite-integral
  evaluator and integral_error". Its two evaluators and the two fit objectives are
  parameters of the model, collected in \<open>externals\<close> together with the configuration
  entry \<^verbatim>\<open>threeML_config['parallel']['use-parallel']\<close> and the availability of the
  default minimizer in \<^verbatim>\<open>minimization._minimizers\<close>. A fit objective returns the fitted
  polynomial and its log-likelihood, or raises.
\<close>

datatype polynomial = Polynomial (coefficients: "real list") (poly_error: "real list")

record externals =
  polyfit :: "real list \<Rightarrow> nat list \<Rightarrow> int \<Rightarrow> real list \<Rightarrow> error + (polynomial \<times> real)"
  unbinned_polyfit ::
    "real list \<Rightarrow> int \<Rightarrow> real list \<Rightarrow> real list \<Rightarrow> real \<Rightarrow> error + (polynomial \<times> real)"
  integral :: "polynomial \<Rightarrow> real \<Rightarrow> real \<Rightarrow> real"
  integral_error :: "polynomial \<Rightarrow> real \<Rightarrow> real \<Rightarrow> real"
  use_parallel :: bool
  minuit_available :: bool

text \<open>
  The attributes of an \<^verbatim>\<open>EventList\<close>, without their leading underscore. \<open>fit_log\<close> is
  not an attribute: it records, in call order, the grade of every call made to a fit
  objective, so that a theorem can say which calls an operation makes.
\<close>

record event_list =
  arrival_times :: "real list"
  energies :: "int list"
  n_channels :: int
  first_channel :: int
  dead_time :: "real list option"
  start_time :: real
  stop_time :: real
  rsp_file :: "string option"
  user_poly_order :: int
  time_selection_exists :: bool
  poly_fit_exists :: bool
  counts :: "nat list option"
  poly_counts :: "real list option"
  poly_count_err :: "real list option"
  exposure :: "real option"
  total_dead_time :: "real option"
  active_dead_time :: "real option"
  tmin_list :: "real list option"
  tmax_list :: "real list option"
  poly_time_selections :: "(real \<times> real) list option"
  unbinned :: "bool option"
  optimal_polynomial_grade :: "int option"
  polynomials :: "polynomial list option"
  fit_log :: "int list"

text \<open>Values a caller can pass where the source inspects the Python type.\<close>

datatype pyval = PyInt int | PyLong int | PyBool bool | PyFloat real | PyStr string | PyNone

subsection \<open>Arrays\<close>

text \<open>
  \<^verbatim>\<open>np.logical_and(times >= tmin, times <= tmax)\<close>, \<^verbatim>\<open>np.logical_or\<close>, \<^verbatim>\<open>np.logical_and\<close>
  and boolean-mask indexing \<^verbatim>\<open>a[mask]\<close>. The constructor asserts that the event arrays
  have one length, so mask and array always agree in length.
\<close>

definition interval_mask :: "real list \<Rightarrow> real \<Rightarrow> real \<Rightarrow> bool list" where
  "interval_mask ts tmin tmax = map (\<lambda>t. tmin \<le> t \<and> t \<le> tmax) ts"

definition logical_or :: "bool list \<Rightarrow> bool list \<Rightarrow> bool list" where
  "logical_or a b = map (\<lambda>(x, y). x \<or> y) (zip a b)"

definition logical_and :: "bool list \<Rightarrow> bool list \<Rightarrow> bool list" where
  "logical_and a b = map (\<lambda>(x, y). x \<and> y) (zip a b)"

definition select :: "bool list \<Rightarrow> 'a list \<Rightarrow> 'a list" where
  "select msk xs = map snd (filter fst (zip msk xs))"

text \<open>Indexing a Python list: a negative index counts from the end.\<close>

definition py_index :: "'a list \<Rightarrow> int \<Rightarrow> error + 'a" where
  "py_index xs i =
     (if 0 \<le> i \<and> i < int (length xs) then Inr (xs ! nat i)
      else if i < 0 \<and> - int (length xs) \<le> i then Inr (xs ! nat (int (length xs) + i))
      else Inl IndexError)"

text \<open>\<^verbatim>\<open>range(self._first_channel, self._n_channels + self._first_channel)\<close>\<close>

definition channels :: "event_list \<Rightarrow> int list" where
  "channels self = [first_channel self .. n_channels self + first_channel self - 1]"

subsection \<open>The constructor\<close>

text \<open>
  \<^verbatim>\<open>__init__\<close> called with arrays and the default minimizer. \<^verbatim>\<open>arrival_times.min()\<close> of an
  empty array raises ValueError; \<^verbatim>\<open>set_minimizer("MINUIT")\<close> asserts that the minimizer is
  available.
\<close>

definition init_event_list ::
  "externals \<Rightarrow> real list \<Rightarrow> int list \<Rightarrow> int \<Rightarrow> real option \<Rightarrow> real option \<Rightarrow>
   real list option \<Rightarrow> int \<Rightarrow> string option \<Rightarrow> event_list outcome" where
  "init_event_list ext arrival energy n_chan start stop dead first_chan rsp =
     (if length arrival \<noteq> length energy then Raise AssertionError
      else if (case dead of None \<Rightarrow> False | Some dt \<Rightarrow> length arrival \<noteq> length dt)
      then Raise AssertionError
      else if (start = None \<or> stop = None) \<and> arrival = [] then Raise ValueError
      else if \<not> minuit_available ext then Raise AssertionError
      else Return
        \<lparr> arrival_times = arrival, energies = energy, n_channels = n_chan,
          first_channel = first_chan, dead_time = dead,
          start_time = (case start of None \<Rightarrow> Min (set arrival) | Some t \<Rightarrow> t),
          stop_time = (case stop of None \<Rightarrow> Max (set arrival) | Some t \<Rightarrow> t),
          rsp_file = rsp, user_poly_order = - 1,
          time_selection_exists = False, poly_fit_exists = False,
          counts = None, poly_counts = None, poly_count_err = None, exposure = None,
          total_dead_time = None, active_dead_time = None, tmin_list = None,
          tmax_list = None, poly_time_selections = None, unbinned = None,
          optimal_polynomial_grade = None, polynomials = None, fit_log = [] \<rparr>)"

subsection \<open>Active time intervals\<close>

text \<open>The loop over \<^verbatim>\<open>args\<close> that parses every interval; the first failure is raised.\<close>

fun parse_all :: "string list \<Rightarrow> error + (real \<times> real) list" where
  "parse_all [] = Inr []"
| "parse_all (arg # rest) =
     (case parse_time_interval arg of
        Inl e \<Rightarrow> Inl e
      | Inr iv \<Rightarrow> (case parse_all rest of Inl e \<Rightarrow> Inl e | Inr ivs \<Rightarrow> Inr (iv # ivs)))"

text \<open>
  The background counts of one channel (lines 181 to 191): the loop over the intervals
  reads \<^verbatim>\<open>self._polynomials[chan]\<close> in each iteration, adds the integral and adds the
  squared integral error.
\<close>

fun integrate_loop ::
  "externals \<Rightarrow> polynomial list option \<Rightarrow> int \<Rightarrow> (real \<times> real) list \<Rightarrow> real \<times> real \<Rightarrow>
   error + (real \<times> real)" where
  "integrate_loop ext polys chan [] acc = Inr acc"
| "integrate_loop ext polys chan ((tmin, tmax) # rest) (total_counts, counts_err) =
     (case polys of
        None \<Rightarrow> Inl AttributeError
      | Some ps \<Rightarrow>
          (case py_index ps chan of
             Inl e \<Rightarrow> Inl e
           | Inr p \<Rightarrow>
               integrate_loop ext polys chan rest
                 (total_counts + integral ext p tmin tmax,
                  counts_err + (integral_error ext p tmin tmax)\<^sup>2)))"

fun poly_channel_loop ::
  "externals \<Rightarrow> polynomial list option \<Rightarrow> (real \<times> real) list \<Rightarrow> int list \<Rightarrow>
   error + (real list \<times> real list)" where
  "poly_channel_loop ext polys ivs [] = Inr ([], [])"
| "poly_channel_loop ext polys ivs (chan # rest) =
     (case integrate_loop ext polys chan ivs (0, 0) of
        Inl e \<Rightarrow> Inl e
      | Inr (total_counts, counts_err) \<Rightarrow>
          (case poly_channel_loop ext polys ivs rest of
             Inl e \<Rightarrow> Inl e
           | Inr (tmp_counts, tmp_err) \<Rightarrow>
               Inr (total_counts # tmp_counts, sqrt counts_err # tmp_err)))"

definition channel_counts :: "event_list \<Rightarrow> bool list \<Rightarrow> nat list" where
  "channel_counts self time_mask =
     map (\<lambda>chan. length (select (logical_and (map (\<lambda>e. e = chan) (energies self)) time_mask)
                                 (arrival_times self)))
         (channels self)"

definition set_active_time_intervals ::
  "externals \<Rightarrow> event_list \<Rightarrow> string list \<Rightarrow> unit outcome \<times> event_list" where
  "set_active_time_intervals ext self args =
     (let s1 = self\<lparr>time_selection_exists := True\<rparr> in
      case parse_all args of
        Inl e \<Rightarrow> (Raise e, s1)
      | Inr ivs \<Rightarrow>
          (case intervals_overlap (map fst ivs) (map snd ivs) of
             Inl e \<Rightarrow> (Raise e, s1)
           | Inr overlap \<Rightarrow>
               if overlap = Some True then (Raise OverLappingIntervals, s1)
               else
                 (case map (\<lambda>(tmin, tmax). interval_mask (arrival_times s1) tmin tmax) ivs of
                    [] \<Rightarrow> (Raise IndexError, s1)
                  | m # ms \<Rightarrow>
                      let time_mask = foldl logical_or m ms;
                          s2 = s1\<lparr>counts := Some (channel_counts s1 time_mask)\<rparr>;
                          r = (if poly_fit_exists s2
                               then (case poly_channel_loop ext (polynomials s2) ivs (channels s2) of
                                       Inl e \<Rightarrow> (Raise e, s2)
                                     | Inr (tmp_counts, tmp_err) \<Rightarrow>
                                         (Return (),
                                          s2\<lparr>poly_counts := Some tmp_counts,
                                             poly_count_err := Some tmp_err\<rparr>))
                               else (Return (), s2))
                      in (case r of
                            (Raise e, s3) \<Rightarrow> (Raise e, s3)
                          | (Return u, s3) \<Rightarrow>
                              let expo = foldl (\<lambda>acc (tmin, tmax). acc + (tmax - tmin)) 0 ivs;
                                  dead = (case dead_time s3 of
                                            None \<Rightarrow> 0
                                          | Some dt \<Rightarrow> sum_list (select time_mask dt))
                              in (Return (),
                                  s3\<lparr>exposure := Some (expo - dead),
                                     total_dead_time := Some dead,
                                     tmin_list := Some (map fst ivs),
                                     tmax_list := Some (map snd ivs),
                                     active_dead_time := Some dead\<rparr>)))))"

subsection \<open>Rates\<close>

text \<open>
  A numpy array divided by the exposure: a division by zero raises nothing and gives an
  infinity or NaN, which the reals do not have.
\<close>

datatype npfloat = Finite real | PosInf | NegInf | NaN

definition np_divide :: "real \<Rightarrow> real \<Rightarrow> npfloat" where
  "np_divide x y =
     (if y \<noteq> 0 then Finite (x / y)
      else if 0 < x then PosInf else if x < 0 then NegInf else NaN)"

text \<open>
  Modelled from the spec: the spectral container \<^verbatim>\<open>PHAContainer\<close> of \<^verbatim>\<open>pha\<close> (not among
  the sources), "a value object carrying per-channel rates, rate errors (or none), channel
  count, exposure, a Poisson/Gaussian statistics flag, and an optional response-file
  identifier".
\<close>

record pha_container =
  pha_rates :: "npfloat list"
  pha_rate_errors :: "npfloat list option"
  pha_n_channels :: int
  pha_exposure :: real
  pha_is_poisson :: bool
  pha_response_file :: "string option"

definition get_pha_container :: "event_list \<Rightarrow> bool \<Rightarrow> error + pha_container" where
  "get_pha_container self use_poly =
     (if \<not> time_selection_exists self then Inl RuntimeError
      else if use_poly then
        (case (poly_count_err self, exposure self, poly_counts self) of
           (Some err, Some expo, Some cnt) \<Rightarrow>
             Inr \<lparr> pha_rates = map (\<lambda>c. np_divide c expo) cnt,
                   pha_rate_errors = Some (map (\<lambda>c. np_divide c expo) err),
                   pha_n_channels = n_channels self, pha_exposure = expo,
                   pha_is_poisson = False, pha_response_file = rsp_file self \<rparr>
         | _ \<Rightarrow> Inl AttributeError)
      else
        (case (counts self, exposure self) of
           (Some cnt, Some expo) \<Rightarrow>
             Inr \<lparr> pha_rates = map (\<lambda>c. np_divide (real c) expo) cnt,
                   pha_rate_errors = None,
                   pha_n_channels = n_channels self, pha_exposure = expo,
                   pha_is_poisson = True, pha_response_file = rsp_file self \<rparr>
         | _ \<Rightarrow> Inl AttributeError))"

subsection \<open>Background information\<close>

text \<open>
  The \<^verbatim>\<open>polynomials\<close> property and \<^verbatim>\<open>get_poly_info\<close>. In both, the branch for a missing
  fit is the expression statement \<^verbatim>\<open>RuntimeError('A polynomial fit has not been made.')\<close>:
  the exception is built and dropped, nothing is raised, and the method returns \<^verbatim>\<open>None\<close>
  (here \<open>Inr None\<close>). The panel \<^verbatim>\<open>get_poly_info\<close> returns holds the coefficients and the
  errors of every polynomial.
\<close>

definition polynomials_property :: "event_list \<Rightarrow> error + polynomial list option" where
  "polynomials_property self =
     (if poly_fit_exists self
      then (case polynomials self of None \<Rightarrow> Inl AttributeError | Some ps \<Rightarrow> Inr (Some ps))
      else Inr None)"

definition get_poly_info :: "event_list \<Rightarrow> error + (real list list \<times> real list list) option" where
  "get_poly_info self =
     (if poly_fit_exists self
      then (case polynomials self of
              None \<Rightarrow> Inl AttributeError
            | Some ps \<Rightarrow> Inr (Some (map coefficients ps, map poly_error ps)))
      else Inr None)"

subsection \<open>Binning\<close>

text \<open>
  \<^verbatim>\<open>np.arange(start, stop, step)\<close> has \<open>\<lceil>(stop - start) / step\<rceil>\<close> elements
  \<open>start + i * step\<close>. \<^verbatim>\<open>np.histogram(a, bins=edges)\<close> with an array of edges counts the
  elements of every half-open bin, the last bin closed; it raises ValueError when the
  edges decrease, and in the numpy the source was written for it reads \<^verbatim>\<open>bins[-1]\<close> for
  each block of data, an IndexError when there is data and no edge.
\<close>

definition np_arange :: "real \<Rightarrow> real \<Rightarrow> real \<Rightarrow> real list" where
  "np_arange start stop step =
     map (\<lambda>i. start + real i * step) [0 ..< nat \<lceil>(stop - start) / step\<rceil>]"

definition np_histogram :: "real list \<Rightarrow> real list \<Rightarrow> error + nat list" where
  "np_histogram a edges =
     (if \<not> sorted edges then Inl ValueError
      else if edges = [] \<and> a \<noteq> [] then Inl IndexError
      else Inr (map (\<lambda>i. length (filter (\<lambda>x. edges ! i \<le> x \<and>
                                   (if Suc (Suc i) = length edges then x \<le> edges ! Suc i
                                    else x < edges ! Suc i)) a))
                    [0 ..< length edges - 1]))"

text \<open>
  \<^verbatim>\<open>_exposure_over_interval\<close>: the mask is computed first, then \<^verbatim>\<open>self._dead_time[mask]\<close>
  is read; indexing \<^verbatim>\<open>None\<close> raises TypeError.
\<close>

definition exposure_over_interval :: "event_list \<Rightarrow> real \<Rightarrow> real \<Rightarrow> error + real" where
  "exposure_over_interval self tmin tmax =
     (let msk = interval_mask (arrival_times self) tmin tmax in
      case dead_time self of
        None \<Rightarrow> Inl TypeError
      | Some dt \<Rightarrow> Inr ((tmax - tmin) - sum_list (select msk dt)))"

text \<open>
  The loop \<^verbatim>\<open>for i in xrange(len(bins) - 1)\<close> of \<^verbatim>\<open>_fit_polynomials\<close> over the pairs of
  neighbouring edges: the mean time and the exposure of every bin.
\<close>

fun bin_loop :: "event_list \<Rightarrow> real list \<Rightarrow> error + (real list \<times> real list)" where
  "bin_loop self (lo # hi # rest) =
     (case exposure_over_interval self lo hi of
        Inl e \<Rightarrow> Inl e
      | Inr x \<Rightarrow>
          (case bin_loop self (hi # rest) of
             Inl e \<Rightarrow> Inl e
           | Inr (mean_time, exposure_per_bin) \<Rightarrow>
               Inr ((lo + hi) / 2 # mean_time, x # exposure_per_bin)))"
| "bin_loop self edges = Inr ([], [])"

subsection \<open>The degree selector\<close>

text \<open>
  The loop \<^verbatim>\<open>for grade in range(min_grade, max_grade + 1)\<close> of both selectors: one call of
  the fit objective per grade, the log-likelihoods collected in order.
\<close>

fun fit_grades ::
  "(int \<Rightarrow> error + (polynomial \<times> real)) \<Rightarrow> int list \<Rightarrow> event_list \<Rightarrow>
   real list outcome \<times> event_list" where
  "fit_grades fit [] self = (Return [], self)"
| "fit_grades fit (grade # rest) self =
     (let s1 = self\<lparr>fit_log := fit_log self @ [grade]\<rparr> in
      case fit grade of
        Inl e \<Rightarrow> (Raise e, s1)
      | Inr (polynomial, log_like) \<Rightarrow>
          (case fit_grades fit rest s1 of
             (Raise e, s2) \<Rightarrow> (Raise e, s2)
           | (Return log_likelihoods, s2) \<Rightarrow> (Return (log_like # log_likelihoods), s2)))"

text \<open>
  From \<^verbatim>\<open>delta_loglike\<close> to \<^verbatim>\<open>best_grade\<close>: \<^verbatim>\<open>log_likelihoods[:-1]\<close> is \<open>butlast\<close>,
  \<^verbatim>\<open>log_likelihoods[1:]\<close> is \<open>tl\<close>, \<^verbatim>\<open>mask.nonzero()[0]\<close> the indices where the mask holds.
\<close>

definition best_grade :: "real list \<Rightarrow> int" where
  "best_grade log_likelihoods =
     (let delta_loglike = map (\<lambda>x. 2 * (fst x - snd x))
                              (zip (butlast log_likelihoods) (tl log_likelihoods));
          delta_threshold = 9;
          msk = map (\<lambda>d. delta_threshold \<le> d) delta_loglike;
          nonzero = filter (\<lambda>i. msk ! i) [0 ..< length msk]
      in if length nonzero = 0 then 0 else int (last nonzero) + 1)"

definition min_grade :: int where "min_grade = 0"

definition max_grade :: int where "max_grade = 3"

definition fit_global_and_determine_optimum_grade ::
  "externals \<Rightarrow> event_list \<Rightarrow> nat list \<Rightarrow> real list \<Rightarrow> real list \<Rightarrow> int outcome \<times> event_list" where
  "fit_global_and_determine_optimum_grade ext self cnts bins expo =
     (case fit_grades (\<lambda>grade. polyfit ext bins cnts grade expo) [min_grade .. max_grade] self of
        (Raise e, s1) \<Rightarrow> (Raise e, s1)
      | (Return log_likelihoods, s1) \<Rightarrow> (Return (best_grade log_likelihoods), s1))"

text \<open>
  The unbinned selector first slices \<^verbatim>\<open>self._poly_time_selections[:, 0]\<close>, which raises
  IndexError on the one-dimensional array that an empty selection list becomes.
\<close>

definition unbinned_fit_global_and_determine_optimum_grade ::
  "externals \<Rightarrow> event_list \<Rightarrow> real list \<Rightarrow> real \<Rightarrow> int outcome \<times> event_list" where
  "unbinned_fit_global_and_determine_optimum_grade ext self events expo =
     (case poly_time_selections self of
        None \<Rightarrow> (Raise AttributeError, self)
      | Some sels \<Rightarrow>
          if sels = [] then (Raise IndexError, self)
          else
            (case fit_grades
                    (\<lambda>grade. unbinned_polyfit ext events grade (map fst sels) (map snd sels) expo)
                    [min_grade .. max_grade] self of
               (Raise e, s1) \<Rightarrow> (Raise e, s1)
             | (Return log_likelihoods, s1) \<Rightarrow> (Return (best_grade log_likelihoods), s1)))"




subsection \<open>The background fits\<close>

text \<open>
  The sequential loop \<^verbatim>\<open>for channel in channels\<close> of both fits: \<open>step\<close> fits one channel;
  the first failure aborts the loop.
\<close>

fun channel_loop ::
  "(int \<Rightarrow> event_list \<Rightarrow> polynomial outcome \<times> event_list) \<Rightarrow> int list \<Rightarrow> event_list \<Rightarrow>
   polynomial list outcome \<times> event_list" where
  "channel_loop step [] self = (Return [], self)"
| "channel_loop step (channel # rest) self =
     (case step channel self of
        (Raise e, s1) \<Rightarrow> (Raise e, s1)
      | (Return p, s1) \<Rightarrow>
          (case channel_loop step rest s1 of
             (Raise e, s2) \<Rightarrow> (Raise e, s2)
           | (Return ps, s2) \<Rightarrow> (Return (p # ps), s2)))"

text \<open>The body of the loop in \<^verbatim>\<open>_fit_polynomials\<close> (lines 724 to 746).\<close>

definition binned_channel_fit ::
  "externals \<Rightarrow> real list \<Rightarrow> int list \<Rightarrow> real list \<Rightarrow> bool list \<Rightarrow> real list \<Rightarrow> real list \<Rightarrow>
   int \<Rightarrow> int \<Rightarrow> event_list \<Rightarrow> polynomial outcome \<times> event_list" where
  "binned_channel_fit ext total_poly_events total_poly_energies these_bins non_zero_mask
       mean_time exposure_per_bin grade channel self =
     (let channel_mask = map (\<lambda>e. e = channel) total_poly_energies;
          current_events = select channel_mask total_poly_events
      in case np_histogram current_events these_bins of
           Inl e \<Rightarrow> (Raise e, self)
         | Inr cnts \<Rightarrow>
             (let s1 = self\<lparr>fit_log := fit_log self @ [grade]\<rparr> in
              case polyfit ext (select non_zero_mask mean_time) (select non_zero_mask cnts)
                     grade (select non_zero_mask exposure_per_bin) of
                Inl e \<Rightarrow> (Raise e, s1)
              | Inr (polynomial, log_like) \<Rightarrow> (Return polynomial, s1)))"

text \<open>
  The first statements of both fits after the flag (lines 632 to 642 and 844 to 859): one
  mask per background interval, the first of them read with \<^verbatim>\<open>all_bkg_masks[0]\<close>, and
  their union. The result is the background intervals and the union mask.
\<close>

definition background_mask :: "event_list \<Rightarrow> error + ((real \<times> real) list \<times> bool list)" where
  "background_mask self =
     (case poly_time_selections self of
        None \<Rightarrow> Inl AttributeError
      | Some sels \<Rightarrow>
          (case map (\<lambda>(lo, hi). interval_mask (arrival_times self) lo hi) sels of
             [] \<Rightarrow> Inl IndexError
           | m # ms \<Rightarrow> Inr (sels, foldl logical_or m ms)))"

text \<open>
  The data preparation of \<^verbatim>\<open>_fit_polynomials\<close> (lines 647 to 691): the background events
  and their energies, the bin edges, the histogram of all background events, the mean
  time and the exposure of every bin, and the mask of the bins whose mean time lies in a
  background interval. The result lists them in this order.
\<close>

definition binned_preparation ::
  "event_list \<Rightarrow>
   error + (real list \<times> int list \<times> real list \<times> nat list \<times> real list \<times> real list \<times> bool list)" where
  "binned_preparation self =
     (case background_mask self of
        Inl e \<Rightarrow> Inl e
      | Inr (sels, poly_mask) \<Rightarrow>
          let total_poly_events = select poly_mask (arrival_times self);
              total_poly_energies = select poly_mask (energies self);
              bin_width = 1 / 10;
              these_bins = np_arange (start_time self) (stop_time self) bin_width
          in (case np_histogram total_poly_events these_bins of
                Inl e \<Rightarrow> Inl e
              | Inr cnts \<Rightarrow>
                  (case bin_loop self these_bins of
                     Inl e \<Rightarrow> Inl e
                   | Inr (mean_time, exposure_per_bin) \<Rightarrow>
                       (case map (\<lambda>(lo, hi). interval_mask mean_time lo hi) sels of
                          [] \<Rightarrow> Inl IndexError
                        | z # zs \<Rightarrow>
                            Inr (total_poly_events, total_poly_energies, these_bins, cnts,
                                 mean_time, exposure_per_bin,
                                 foldl (\<lambda>acc msk. logical_or msk acc) z zs)))))"

definition fit_polynomials :: "externals \<Rightarrow> event_list \<Rightarrow> unit outcome \<times> event_list" where
  "fit_polynomials ext self =
     (let s1 = self\<lparr>poly_fit_exists := True\<rparr> in
      case binned_preparation s1 of
        Inl e \<Rightarrow> (Raise e, s1)
      | Inr (total_poly_events, total_poly_energies, these_bins, cnts, mean_time,
             exposure_per_bin, non_zero_mask) \<Rightarrow>
          (case (if user_poly_order s1 = - 1
                 then fit_global_and_determine_optimum_grade ext s1
                        (select non_zero_mask cnts)
                        (select non_zero_mask mean_time)
                        (select non_zero_mask exposure_per_bin)
                 else (Return (user_poly_order s1), s1)) of
             (Raise e, s2) \<Rightarrow> (Raise e, s2)
           | (Return grade, s2) \<Rightarrow>
               let s3 = s2\<lparr>optimal_polynomial_grade := Some grade\<rparr> in
               if \<not> use_parallel ext then
                 (case channel_loop
                         (binned_channel_fit ext total_poly_events total_poly_energies
                            these_bins non_zero_mask mean_time exposure_per_bin grade)
                         (channels s3) s3 of
                    (Raise e, s4) \<Rightarrow> (Raise e, s4)
                  | (Return ps, s4) \<Rightarrow> (Return (), s4\<lparr>polynomials := Some ps\<rparr>))
               else (Raise NotImplementedError, s3)))"

text \<open>The body of the loop in \<^verbatim>\<open>_unbinned_fit_polynomials\<close> (lines 905 to 920).\<close>

definition unbinned_channel_fit ::
  "externals \<Rightarrow> real list \<Rightarrow> int list \<Rightarrow> real list \<Rightarrow> real list \<Rightarrow> real \<Rightarrow>
   int \<Rightarrow> int \<Rightarrow> event_list \<Rightarrow> polynomial outcome \<times> event_list" where
  "unbinned_channel_fit ext total_poly_events total_poly_energies t_start t_stop poly_exposure
       grade channel self =
     (let channel_mask = map (\<lambda>e. e = channel) total_poly_energies;
          current_events = select channel_mask total_poly_events;
          s1 = self\<lparr>fit_log := fit_log self @ [grade]\<rparr>
      in case unbinned_polyfit ext current_events grade t_start t_stop poly_exposure of
           Inl e \<Rightarrow> (Raise e, s1)
         | Inr (polynomial, log_like) \<Rightarrow> (Return polynomial, s1))"

text \<open>
  The data preparation of \<^verbatim>\<open>_unbinned_fit_polynomials\<close> (lines 846 to 873): the
  background intervals, the background events and their energies, and the background
  exposure, the total duration of the intervals less the dead time of the background
  events. \<^verbatim>\<open>self._dead_time[poly_mask]\<close> raises TypeError when the dead time is \<^verbatim>\<open>None\<close>.
\<close>

definition unbinned_preparation ::
  "event_list \<Rightarrow> error + ((real \<times> real) list \<times> real list \<times> int list \<times> real)" where
  "unbinned_preparation self =
     (case background_mask self of
        Inl e \<Rightarrow> Inl e
      | Inr (sels, poly_mask) \<Rightarrow>
          let total_duration = foldl (\<lambda>acc (lo, hi). acc + (hi - lo)) 0 sels;
              total_poly_events = select poly_mask (arrival_times self);
              total_poly_energies = select poly_mask (energies self)
          in (case dead_time self of
                None \<Rightarrow> Inl TypeError
              | Some dt \<Rightarrow>
                  let poly_deadtime = sum_list (select poly_mask dt);
                      poly_exposure = total_duration - poly_deadtime
                  in Inr (sels, total_poly_events, total_poly_energies, poly_exposure)))"

definition unbinned_fit_polynomials :: "externals \<Rightarrow> event_list \<Rightarrow> unit outcome \<times> event_list" where
  "unbinned_fit_polynomials ext self =
     (let s1 = self\<lparr>poly_fit_exists := True\<rparr> in
      case unbinned_preparation s1 of
        Inl e \<Rightarrow> (Raise e, s1)
      | Inr (sels, total_poly_events, total_poly_energies, poly_exposure) \<Rightarrow>
          (case (if user_poly_order s1 = - 1
                 then unbinned_fit_global_and_determine_optimum_grade ext s1
                        total_poly_events poly_exposure
                 else (Return (user_poly_order s1), s1)) of
             (Raise e, s2) \<Rightarrow> (Raise e, s2)
           | (Return grade, s2) \<Rightarrow>
               let s3 = s2\<lparr>optimal_polynomial_grade := Some grade\<rparr>;
                   t_start = map fst sels;
                   t_stop = map snd sels
               in if \<not> use_parallel ext then
                    (case channel_loop
                            (unbinned_channel_fit ext total_poly_events total_poly_energies
                               t_start t_stop poly_exposure grade)
                            (channels s3) s3 of
                       (Raise e, s4) \<Rightarrow> (Raise e, s4)
                     | (Return ps, s4) \<Rightarrow> (Return (), s4\<lparr>polynomials := Some ps\<rparr>))
                  else (Raise NotImplementedError, s3)))"

subsection \<open>The polynomial order\<close>



definition get_poly_order :: "event_list \<Rightarrow> int" where
  "get_poly_order self = user_poly_order self"

subsection \<open>Background fit intervals\<close>








subsection \<open>The spec's words for the active selection\<close>






subsection \<open>What a background fit changes\<close>

text \<open>
  Predicates used to state what the fits leave alone. \<open>only_log\<close>: nothing but the record
  of fit calls differs. \<open>same_selection\<close>: the event data, the active selection, the
  background intervals, the estimation mode and the user's order are the same.
  \<open>fit_shape self r s'\<close> lists the three ways a fit can end: it raises before a grade is
  stored, it raises after, or it returns with one polynomial per channel; \<open>grade_ok\<close> is
  what is known of the stored grade and \<open>selector_calls\<close> the grades the degree selector
  requests. \<open>preparation_fails unb s e\<close>: the data preparation of the chosen mode raises
  \<open>e\<close>.
\<close>

definition only_log :: "event_list \<Rightarrow> event_list \<Rightarrow> bool" where
  "only_log s s' = (s' = s\<lparr>fit_log := fit_log s'\<rparr>)"



definition grade_ok :: "event_list \<Rightarrow> int \<Rightarrow> bool" where
  "grade_ok self g =
     (if user_poly_order self = - 1 then 0 \<le> g \<and> g \<le> 3 else g = user_poly_order self)"

definition selector_calls :: "event_list \<Rightarrow> int list" where
  "selector_calls self = (if user_poly_order self = - 1 then [0, 1, 2, 3] else [])"

definition fit_shape :: "event_list \<Rightarrow> unit outcome \<Rightarrow> event_list \<Rightarrow> bool" where
  "fit_shape self r s' =
     ((\<exists>e. r = Raise e \<and> s' = self\<lparr>poly_fit_exists := True, fit_log := fit_log s'\<rparr>) \<or>
      (\<exists>e g. r = Raise e \<and> grade_ok self g \<and> optimal_polynomial_grade s' = Some g \<and>
         s' = self\<lparr>poly_fit_exists := True,
                   optimal_polynomial_grade := optimal_polynomial_grade s',
                   fit_log := fit_log s'\<rparr>) \<or>
      (\<exists>ps g. r = Return () \<and> grade_ok self g \<and> optimal_polynomial_grade s' = Some g \<and>
         polynomials s' = Some ps \<and> length ps = length (channels self) \<and>
         fit_log s' = fit_log self @ selector_calls self @ replicate (length (channels self)) g \<and>
         s' = self\<lparr>poly_fit_exists := True,
                   optimal_polynomial_grade := optimal_polynomial_grade s',
                   polynomials := polynomials s',
                   fit_log := fit_log s'\<rparr>))"

subsection \<open>Example inputs\<close>

text \<open>
  Concrete inputs at which the theorems below are instantiated. The example fit objectives
  return a constant polynomial for every request, with a log-likelihood that drops by 10
  from grade 0 to grade 1 and stays there; the example evaluators integrate the constant
  term; the failing objectives raise on every request. \<open>example_list\<close> is the object
  the constructor returns for four events in two channels with a dead time of half a
  second each; \<open>example_short\<close> spans two tenths of a second, which is one bin. The
  last two are constructed with \<^verbatim>\<open>dead_time=None\<close>: \<open>example_without_dead_time\<close> spans ten
  seconds, \<open>example_brief\<close> one tenth of a second, which is a single bin edge and no bin.
\<close>

definition example_externals :: externals where
  "example_externals =
     \<lparr> polyfit = (\<lambda>x y grade expo. Inr (Polynomial [1] [0], if grade = 0 then 0 else - 10)),
       unbinned_polyfit =
         (\<lambda>events grade t_start t_stop expo. Inr (Polynomial [1] [0], if grade = 0 then 0 else - 10)),
       integral = (\<lambda>p tmin tmax. hd (coefficients p) * (tmax - tmin)),
       integral_error = (\<lambda>p tmin tmax. 0),
       use_parallel = False,
       minuit_available = True \<rparr>"

definition example_list :: event_list where
  "example_list =
     returned (init_event_list example_externals [1, 2, 3, 12] [0, 0, 1, 1] 2 (Some 0) (Some 10)
                 (Some [1 / 2, 1 / 2, 1 / 2, 1 / 2]) 0 None)"


definition example_short :: event_list where
  "example_short =
     returned (init_event_list example_externals [1 / 20, 3 / 20] [0, 1] 2 (Some 0) (Some (1 / 5))
                 (Some [1 / 100, 1 / 100]) 0 None)"



section \<open>Properties\<close>

subsection \<open>Evaluation lemmas\<close>

lemmas parse_defs = parse_time_interval_def match_number_def opt_char_def is_digit_def
  is_space_def py_float_def unsigned_float_def digits_val_def digit_val_def Let_def

lemma parse_0_10: "parse_time_interval ''0.0-10.0'' = Inr (0, 10)"
  by (simp add: parse_defs)

lemma parse_5_15: "parse_time_interval ''5.0-15.0'' = Inr (5, 15)"
  by (simp add: parse_defs)

lemma example_list_eq:
  "example_list =
     \<lparr> arrival_times = [1, 2, 3, 12], energies = [0, 0, 1, 1], n_channels = 2,
       first_channel = 0, dead_time = Some [1 / 2, 1 / 2, 1 / 2, 1 / 2],
       start_time = 0, stop_time = 10, rsp_file = None, user_poly_order = - 1,
       time_selection_exists = False, poly_fit_exists = False,
       counts = None, poly_counts = None, poly_count_err = None, exposure = None,
       total_dead_time = None, active_dead_time = None, tmin_list = None,
       tmax_list = None, poly_time_selections = None, unbinned = None,
       optimal_polynomial_grade = None, polynomials = None, fit_log = [] \<rparr>"
  by (simp add: example_list_def init_event_list_def example_externals_def)

subsection \<open>The overlap check looks at the first interval only\<close>

lemma inner_loop_iff:
  "inner_loop a b ivs \<longleftrightarrow>
     (\<exists>iv\<in>set ivs. strictly_inside (fst iv) (a, b) \<or> strictly_inside (snd iv) (a, b))"
  by (induction ivs) (auto simp: strictly_inside_def)

text \<open>
  With at least one interval the check answers whether a bound of a later interval lies
  strictly inside the open range of the first interval, and nothing else.
\<close>

lemma intervals_overlap_Cons:
  "intervals_overlap (a # tmin) (b # tmax) =
     Inr (Some (\<exists>iv\<in>set (zip tmin tmax).
                  strictly_inside (fst iv) (a, b) \<or> strictly_inside (snd iv) (a, b)))"
  by (simp add: intervals_overlap_def upt_conv_Cons pop_def inner_loop_iff del: upt_Suc)

lemma intervals_overlap_Nil: "intervals_overlap [] tmax = Inr None"
  by (simp add: intervals_overlap_def)

text \<open>
  C1. The claim asks for \<open>True\<close> exactly when some interval's bound lies strictly inside
  another interval's open range. For the intervals \<open>(2, 3)\<close> and \<open>(0, 10)\<close> the first lies
  inside the second, so the spec's check holds, and the overlap involves the first
  interval; the function returns \<open>False\<close>, because the outer loop returns in its first
  iteration and never makes \<open>(0, 10)\<close> the interval whose range is tested. The same two
  intervals in the other order are reported as overlapping.
\<close>

theorem intervals_overlap_misses_containment:
  "intervals_overlap [2, 0] [3, 10] = Inr (Some False) \<and>
   overlaps_spec [(2, 3), (0, 10)] \<and>
   intervals_overlap [0, 2] [10, 3] = Inr (Some True)"
  by (simp add: intervals_overlap_Cons strictly_inside_def overlaps_spec_def)

subsection \<open>An overlapping selection\<close>

text \<open>
  C2. The call with \<^verbatim>\<open>"0.0-10.0"\<close> and \<^verbatim>\<open>"5.0-15.0"\<close> raises OverLappingIntervals and leaves
  the counts, the exposure, the dead times and the stored interval lists as they were, but
  not the flag: \<^verbatim>\<open>_time_selection_exists\<close> is set before the intervals are checked, so
  on an object without a selection the flag changes from false to true.
\<close>

theorem overlapping_call_sets_flag:
  "set_active_time_intervals ext self [''0.0-10.0'', ''5.0-15.0''] =
     (Raise OverLappingIntervals, self\<lparr>time_selection_exists := True\<rparr>)"
  by (simp add: set_active_time_intervals_def parse_0_10 parse_5_15
      intervals_overlap_Cons strictly_inside_def)

theorem overlapping_call_sets_flag_witness:
  "\<not> time_selection_exists example_list \<and>
   fst (set_active_time_intervals example_externals example_list [''0.0-10.0'', ''5.0-15.0'']) =
     Raise OverLappingIntervals \<and>
   time_selection_exists
     (snd (set_active_time_intervals example_externals example_list [''0.0-10.0'', ''5.0-15.0''])) \<and>
   get_pha_container
     (snd (set_active_time_intervals example_externals example_list [''0.0-10.0'', ''5.0-15.0'']))
     False = Inl AttributeError"
  using overlapping_call_sets_flag [of example_externals example_list]
  by (simp add: example_list_eq get_pha_container_def)

subsection \<open>Rates\<close>


subsection \<open>Background information without a fit\<close>

text \<open>
  C7. The claim asks for an error when no polynomial fit has been made. Both accessors
  build the RuntimeError without raising it and return \<^verbatim>\<open>None\<close>.
\<close>

theorem missing_fit_returns_none:
  "\<not> poly_fit_exists self \<Longrightarrow>
   polynomials_property self = Inr None \<and> get_poly_info self = Inr None"
  by (simp add: polynomials_property_def get_poly_info_def)

theorem missing_fit_returns_none_witness:
  "\<not> poly_fit_exists example_list \<and>
   polynomials_property example_list = Inr None \<and> get_poly_info example_list = Inr None"
  using missing_fit_returns_none [of example_list] by (simp add: example_list_eq)

subsection \<open>Frame lemmas for the fit loops\<close>

lemma only_log_refl [simp]: "only_log s s"
  by (simp add: only_log_def)

lemma only_log_update [simp]: "only_log s (s\<lparr>fit_log := L\<rparr>)"
  by (simp add: only_log_def)

lemma only_log_trans:
  assumes "only_log s t" and "only_log t u"
  shows "only_log s u"
proof -
  from assms have a: "t = s\<lparr>fit_log := fit_log t\<rparr>" and b: "u = t\<lparr>fit_log := fit_log u\<rparr>"
    by (simp_all add: only_log_def)
  have "t\<lparr>fit_log := fit_log u\<rparr> = s\<lparr>fit_log := fit_log u\<rparr>"
    by (subst a) simp
  with b show ?thesis by (simp add: only_log_def)
qed

lemma fit_grades_only_log: "only_log s (snd (fit_grades f gs s))"
proof (induction gs arbitrary: s)
  case Nil
  show ?case by simp
next
  case (Cons g gs)
  have step: "only_log s (s\<lparr>fit_log := fit_log s @ [g]\<rparr>)" by simp
  show ?case
  proof (cases "f g")
    case (Inl e)
    then show ?thesis by (simp add: Let_def)
  next
    case (Inr pl)
    obtain p ll where pl: "pl = (p, ll)" by (cases pl)
    have "only_log (s\<lparr>fit_log := fit_log s @ [g]\<rparr>)
            (snd (fit_grades f gs (s\<lparr>fit_log := fit_log s @ [g]\<rparr>)))"
      by (rule Cons.IH)
    with step have "only_log s (snd (fit_grades f gs (s\<lparr>fit_log := fit_log s @ [g]\<rparr>)))"
      by (rule only_log_trans)
    then show ?thesis using Inr pl
      by (cases "fit_grades f gs (s\<lparr>fit_log := fit_log s @ [g]\<rparr>)")
         (auto simp: Let_def split: outcome.splits)
  qed
qed

lemma fit_grades_Return:
  "fit_grades f gs s = (Return lls, s') \<Longrightarrow>
     s' = s\<lparr>fit_log := fit_log s @ gs\<rparr> \<and> length lls = length gs \<and>
     (\<forall>i<length gs. \<exists>p. f (gs ! i) = Inr (p, lls ! i))"
proof (induction gs arbitrary: s lls)
  case Nil
  then show ?case by simp
next
  case (Cons g gs)
  from Cons.prems obtain p ll lls' where fg: "f g = Inr (p, ll)"
    and rec: "fit_grades f gs (s\<lparr>fit_log := fit_log s @ [g]\<rparr>) = (Return lls', s')"
    and lls: "lls = ll # lls'"
    by (auto simp: Let_def split: sum.splits prod.splits outcome.splits)
  from Cons.IH [OF rec] have ih: "s' = s\<lparr>fit_log := fit_log s @ g # gs\<rparr>"
    "length lls' = length gs" "\<forall>i<length gs. \<exists>p. f (gs ! i) = Inr (p, lls' ! i)"
    by simp_all
  show ?case using ih fg lls by (auto simp: nth_Cons split: nat.splits)
qed


lemma channel_loop_only_log:
  assumes "\<And>c t. only_log t (snd (step c t))"
  shows "only_log s (snd (channel_loop step cs s))"
proof (induction cs arbitrary: s)
  case Nil
  show ?case by simp
next
  case (Cons c cs)
  have a: "only_log s (snd (step c s))" by (rule assms)
  have b: "only_log (snd (step c s)) (snd (channel_loop step cs (snd (step c s))))"
    by (rule Cons.IH)
  from a b have c: "only_log s (snd (channel_loop step cs (snd (step c s))))"
    by (rule only_log_trans)
  show ?case using a c
    by (cases "step c s") (auto split: outcome.splits prod.splits)
qed

lemma channel_loop_Return:
  assumes "\<And>c t p t'. step c t = (Return p, t') \<Longrightarrow> t' = t\<lparr>fit_log := fit_log t @ [g]\<rparr>"
  shows "channel_loop step cs s = (Return ps, s') \<Longrightarrow>
           s' = s\<lparr>fit_log := fit_log s @ replicate (length cs) g\<rparr> \<and> length ps = length cs"
proof (induction cs arbitrary: s ps)
  case Nil
  then show ?case by simp
next
  case (Cons c cs)
  from Cons.prems obtain p t ps' where st: "step c s = (Return p, t)"
    and rec: "channel_loop step cs t = (Return ps', s')" and ps: "ps = p # ps'"
    by (auto split: outcome.splits prod.splits)
  from assms [OF st] have t: "t = s\<lparr>fit_log := fit_log s @ [g]\<rparr>" .
  from Cons.IH [OF rec] t ps show ?case by (simp add: replicate_append_same)
qed

lemma binned_channel_fit_only_log:
  "only_log t (snd (binned_channel_fit ext a b c d e f g ch t))"
  by (simp add: binned_channel_fit_def Let_def split: sum.splits prod.splits)

lemma binned_channel_fit_Return:
  "binned_channel_fit ext a b c d e f g ch t = (Return p, t') \<Longrightarrow> t' = t\<lparr>fit_log := fit_log t @ [g]\<rparr>"
  by (auto simp: binned_channel_fit_def Let_def split: sum.splits prod.splits)

lemma unbinned_channel_fit_only_log:
  "only_log t (snd (unbinned_channel_fit ext a b c d e g ch t))"
  by (simp add: unbinned_channel_fit_def Let_def split: sum.splits prod.splits)

lemma unbinned_channel_fit_Return:
  "unbinned_channel_fit ext a b c d e g ch t = (Return p, t') \<Longrightarrow> t' = t\<lparr>fit_log := fit_log t @ [g]\<rparr>"
  by (auto simp: unbinned_channel_fit_def Let_def split: sum.splits prod.splits)

lemma grades_eq: "[min_grade .. max_grade] = [0, 1, 2, 3]"
  by (simp add: min_grade_def max_grade_def upto_rec1)

lemma best_grade_4:
  "best_grade [l0, l1, l2, l3] =
     (if 9 \<le> 2 * (l2 - l3) then 3 else if 9 \<le> 2 * (l1 - l2) then 2
      else if 9 \<le> 2 * (l0 - l1) then 1 else 0)"
  by (simp add: best_grade_def Let_def)



lemma length4: "length xs = 4 \<Longrightarrow> \<exists>a b c d. xs = [a, b, c, d]"
  by (cases xs; simp; cases "tl xs"; simp; cases "tl (tl xs)"; simp; cases "tl (tl (tl xs))"; auto)

lemma best_grade_range: "length lls = 4 \<Longrightarrow> 0 \<le> best_grade lls \<and> best_grade lls \<le> 3"
  using length4 [of lls] by (auto simp: best_grade_4)

lemma fit_grades_4:
  assumes "fit_grades f [min_grade .. max_grade] s = (Return lls, s2)"
  shows "s2 = s\<lparr>fit_log := fit_log s @ [0, 1, 2, 3]\<rparr> \<and> length lls = 4"
  using fit_grades_Return [OF assms] by (simp add: grades_eq)

lemma selector_Return:
  assumes "fit_global_and_determine_optimum_grade ext s c b e = (Return g, s2)"
  shows "s2 = s\<lparr>fit_log := fit_log s @ [0, 1, 2, 3]\<rparr> \<and> 0 \<le> g \<and> g \<le> 3"
proof (cases "fit_grades (\<lambda>grade. polyfit ext b c grade e) [min_grade .. max_grade] s")
  case (Pair r t)
  with assms obtain lls where r: "r = Return lls" and g: "g = best_grade lls" and t: "t = s2"
    by (cases r) (auto simp: fit_global_and_determine_optimum_grade_def)
  from Pair r t fit_grades_4 have "s2 = s\<lparr>fit_log := fit_log s @ [0, 1, 2, 3]\<rparr> \<and> length lls = 4"
    by blast
  with g best_grade_range [of lls] show ?thesis by simp
qed

lemma selector_only_log:
  "only_log s (snd (fit_global_and_determine_optimum_grade ext s c b e))"
  using fit_grades_only_log [of s "\<lambda>grade. polyfit ext b c grade e" "[min_grade .. max_grade]"]
  by (auto simp: fit_global_and_determine_optimum_grade_def split: prod.splits outcome.splits)

lemma unbinned_selector_Return:
  assumes "unbinned_fit_global_and_determine_optimum_grade ext s ev e = (Return g, s2)"
  shows "s2 = s\<lparr>fit_log := fit_log s @ [0, 1, 2, 3]\<rparr> \<and> 0 \<le> g \<and> g \<le> 3"
proof -
  from assms obtain sels where sels: "poly_time_selections s = Some sels" "sels \<noteq> []"
    by (auto simp: unbinned_fit_global_and_determine_optimum_grade_def
        split: option.splits if_splits)
  show ?thesis
  proof (cases "fit_grades (\<lambda>grade. unbinned_polyfit ext ev grade (map fst sels) (map snd sels) e)
                  [min_grade .. max_grade] s")
    case (Pair r t)
    with assms sels obtain lls where r: "r = Return lls" and g: "g = best_grade lls" and t: "t = s2"
      by (cases r) (auto simp: unbinned_fit_global_and_determine_optimum_grade_def)
    from Pair r t fit_grades_4 have "s2 = s\<lparr>fit_log := fit_log s @ [0, 1, 2, 3]\<rparr> \<and> length lls = 4"
      by blast
    with g best_grade_range [of lls] show ?thesis by simp
  qed
qed

lemma unbinned_selector_only_log:
  "only_log s (snd (unbinned_fit_global_and_determine_optimum_grade ext s ev e))"
proof (cases "poly_time_selections s")
  case None
  then show ?thesis by (simp add: unbinned_fit_global_and_determine_optimum_grade_def)
next
  case (Some sels)
  show ?thesis
    using Some fit_grades_only_log [of s "\<lambda>grade. unbinned_polyfit ext ev grade (map fst sels) (map snd sels) e" "[min_grade .. max_grade]"]
    by (auto simp: unbinned_fit_global_and_determine_optimum_grade_def split: prod.splits outcome.splits)
qed

lemma only_logD: "only_log s t \<Longrightarrow> \<exists>L. t = s\<lparr>fit_log := L\<rparr>"
  unfolding only_log_def by (rule exI)

text \<open>The common tail of both fits: the grade is chosen, then the channels are fitted.\<close>

lemma fit_tail_shape:
  assumes sel: "\<And>g s2. selector = (Return g, s2) \<Longrightarrow>
                   s2 = s1\<lparr>fit_log := fit_log s1 @ [0, 1, 2, 3]\<rparr> \<and> 0 \<le> g \<and> g \<le> 3"
    and sel_log: "only_log s1 (snd selector)"
    and step_log: "\<And>g c t. only_log t (snd (step g c t))"
    and step_ret: "\<And>g c t p t'. step g c t = (Return p, t') \<Longrightarrow> t' = t\<lparr>fit_log := fit_log t @ [g]\<rparr>"
    and s1: "s1 = self\<lparr>poly_fit_exists := True\<rparr>"
    and res: "(case (if user_poly_order s1 = - 1 then selector else (Return (user_poly_order s1), s1)) of
                (Raise e, s2) \<Rightarrow> (Raise e, s2)
              | (Return grade, s2) \<Rightarrow>
                  let s3 = s2\<lparr>optimal_polynomial_grade := Some grade\<rparr> in
                  if \<not> par then
                    (case channel_loop (step grade) (channels s3) s3 of
                       (Raise e, s4) \<Rightarrow> (Raise e, s4)
                     | (Return ps, s4) \<Rightarrow> (Return (), s4\<lparr>polynomials := Some ps\<rparr>))
                  else (Raise NotImplementedError, s3)) = (r, s')"
  shows "fit_shape self r s'"
proof -
  define chosen where "chosen = (if user_poly_order s1 = - 1 then selector else (Return (user_poly_order s1), s1))"
  obtain q s2 where q: "chosen = (q, s2)" by (cases chosen)
  show ?thesis
  proof (cases q)
    case (Raise e)
    with q res have r: "r = Raise e" "s' = s2" by (simp_all add: chosen_def [symmetric])
    from q Raise have "user_poly_order s1 = - 1" "selector = (Raise e, s2)"
      by (auto simp: chosen_def split: if_splits)
    with sel_log obtain L where "s2 = s1\<lparr>fit_log := L\<rparr>" by (auto dest: only_logD)
    with r s1 show ?thesis by (simp add: fit_shape_def)
  next
    case (Return g)
    have s2: "s2 = s1\<lparr>fit_log := fit_log self @ selector_calls self\<rparr>" and ok: "grade_ok self g"
      using q Return sel [of g s2] s1
      by (auto simp: chosen_def selector_calls_def grade_ok_def split: if_splits)
    define s3 where "s3 = s2\<lparr>optimal_polynomial_grade := Some g\<rparr>"
    have ch: "channels s3 = channels self" by (simp add: s3_def s2 s1 channels_def)
    show ?thesis
    proof (cases par)
      case True
      with q Return res have "r = Raise NotImplementedError" "s' = s3"
        by (simp_all add: chosen_def [symmetric] s3_def Let_def)
      then show ?thesis using ok s2 s1 by (simp add: fit_shape_def s3_def)
    next
      case False
      obtain w s4 where w: "channel_loop (step g) (channels s3) s3 = (w, s4)"
        by (cases "channel_loop (step g) (channels s3) s3")
      show ?thesis
      proof (cases w)
        case (Raise e)
        with w False q Return res have r: "r = Raise e" "s' = s4"
          by (simp_all add: chosen_def [symmetric] s3_def [symmetric] Let_def)
        have "only_log s3 (snd (channel_loop (step g) (channels s3) s3))"
          by (rule channel_loop_only_log) (rule step_log)
        with w obtain L where "s4 = s3\<lparr>fit_log := L\<rparr>" by (auto dest: only_logD)
        with r ok show ?thesis by (simp add: fit_shape_def s3_def s2 s1)
      next
        case (Return ps)
        with w False q \<open>q = Return g\<close> res have r: "r = Return ()" "s' = s4\<lparr>polynomials := Some ps\<rparr>"
          by (simp_all add: chosen_def [symmetric] s3_def [symmetric] Let_def)
        from w Return have "channel_loop (step g) (channels s3) s3 = (Return ps, s4)" by simp
        from channel_loop_Return [of "step g" g, OF step_ret this]
        have "s4 = s3\<lparr>fit_log := fit_log s3 @ replicate (length (channels s3)) g\<rparr>"
          "length ps = length (channels s3)" by simp_all
        with r ok ch show ?thesis by (simp add: fit_shape_def s3_def s2 s1)
      qed
    qed
  qed
qed

lemma fit_shape_early: "fit_shape self (Raise e) (self\<lparr>poly_fit_exists := True\<rparr>)"
  by (simp add: fit_shape_def)

lemma fit_polynomials_shape:
  assumes "fit_polynomials ext self = (r, s')"
  shows "fit_shape self r s'"
proof -
  define s1 where "s1 = self\<lparr>poly_fit_exists := True\<rparr>"
  note early = fit_shape_early [of self, folded s1_def]
  note unf = fit_polynomials_def Let_def s1_def [symmetric] sum.case prod.case
  show ?thesis
  proof (cases "binned_preparation s1")
    case (Inl e)
    from assms have "(Raise e, s1) = (r, s')" by (simp only: unf Inl)
    with early show ?thesis by auto
  next
    case (Inr d)
    obtain tpe tpen bins cnts mean_time epb nzm
      where d: "d = (tpe, tpen, bins, cnts, mean_time, epb, nzm)"
      by (cases d)
    from assms
    have res: "(case (if user_poly_order s1 = - 1
           then fit_global_and_determine_optimum_grade ext s1 (select nzm cnts)
                  (select nzm mean_time) (select nzm epb)
           else (Return (user_poly_order s1), s1)) of
        (Raise e, s2) \<Rightarrow> (Raise e, s2)
      | (Return grade, s2) \<Rightarrow>
          let s3 = s2\<lparr>optimal_polynomial_grade := Some grade\<rparr> in
          if \<not> use_parallel ext then
            (case channel_loop
                    (binned_channel_fit ext tpe tpen bins nzm mean_time epb grade)
                    (channels s3) s3 of
               (Raise e, s4) \<Rightarrow> (Raise e, s4)
             | (Return ps, s4) \<Rightarrow> (Return (), s4\<lparr>polynomials := Some ps\<rparr>))
          else (Raise NotImplementedError, s3)) = (r, s')"
      by (simp only: unf Inr d)
    show ?thesis
      by (rule fit_tail_shape
          [where step = "binned_channel_fit ext tpe tpen bins nzm mean_time epb"
             and par = "use_parallel ext", OF _ _ _ _ s1_def res])
        (auto dest: selector_Return binned_channel_fit_Return
              intro: selector_only_log binned_channel_fit_only_log)
  qed
qed

lemma unbinned_fit_polynomials_shape:
  assumes "unbinned_fit_polynomials ext self = (r, s')"
  shows "fit_shape self r s'"
proof -
  define s1 where "s1 = self\<lparr>poly_fit_exists := True\<rparr>"
  note early = fit_shape_early [of self, folded s1_def]
  note unf = unbinned_fit_polynomials_def Let_def s1_def [symmetric] sum.case prod.case
  show ?thesis
  proof (cases "unbinned_preparation s1")
    case (Inl e)
    from assms have "(Raise e, s1) = (r, s')" by (simp only: unf Inl)
    with early show ?thesis by auto
  next
    case (Inr d)
    obtain sels tpe tpen pe where d: "d = (sels, tpe, tpen, pe)"
      by (cases d)
    from assms
    have res: "(case (if user_poly_order s1 = - 1
           then unbinned_fit_global_and_determine_optimum_grade ext s1 tpe pe
           else (Return (user_poly_order s1), s1)) of
        (Raise e, s2) \<Rightarrow> (Raise e, s2)
      | (Return grade, s2) \<Rightarrow>
          let s3 = s2\<lparr>optimal_polynomial_grade := Some grade\<rparr> in
          if \<not> use_parallel ext then
            (case channel_loop
                    (unbinned_channel_fit ext tpe tpen (map fst sels) (map snd sels) pe grade)
                    (channels s3) s3 of
               (Raise e, s4) \<Rightarrow> (Raise e, s4)
             | (Return ps, s4) \<Rightarrow> (Return (), s4\<lparr>polynomials := Some ps\<rparr>))
          else (Raise NotImplementedError, s3)) = (r, s')"
      by (simp only: unf Inr d)
    show ?thesis
      by (rule fit_tail_shape
          [where step = "unbinned_channel_fit ext tpe tpen (map fst sels) (map snd sels) pe"
             and par = "use_parallel ext", OF _ _ _ _ s1_def res])
        (auto dest: unbinned_selector_Return unbinned_channel_fit_Return
              intro: unbinned_selector_only_log unbinned_channel_fit_only_log)
  qed
qed






lemma fit_shape_Return:
  assumes "fit_shape self (Return ()) s'"
  shows "\<exists>g ps. grade_ok self g \<and> optimal_polynomial_grade s' = Some g \<and>
           polynomials s' = Some ps \<and> length ps = length (channels self) \<and>
           fit_log s' = fit_log self @ selector_calls self @ replicate (length (channels self)) g"
  using assms unfolding fit_shape_def by auto

subsection \<open>Evaluation of the examples\<close>

lemma example_short_eq:
  "example_short =
     \<lparr> arrival_times = [1 / 20, 3 / 20], energies = [0, 1], n_channels = 2,
       first_channel = 0, dead_time = Some [1 / 100, 1 / 100],
       start_time = 0, stop_time = 1 / 5, rsp_file = None, user_poly_order = - 1,
       time_selection_exists = False, poly_fit_exists = False,
       counts = None, poly_counts = None, poly_count_err = None, exposure = None,
       total_dead_time = None, active_dead_time = None, tmin_list = None,
       tmax_list = None, poly_time_selections = None, unbinned = None,
       optimal_polynomial_grade = None, polynomials = None, fit_log = [] \<rparr>"
  by (simp add: example_short_def init_event_list_def example_externals_def)

lemmas array_defs = interval_mask_def logical_or_def logical_and_def select_def channels_def
  upto_rec1 background_mask_def binned_preparation_def unbinned_preparation_def


lemma forced_unbinned_eval:
  "unbinned_fit_polynomials example_externals
      (example_list\<lparr>poly_time_selections := Some [(0, 5)], user_poly_order := 2\<rparr>) =
     (Return (),
      example_list\<lparr>poly_time_selections := Some [(0, 5)], user_poly_order := 2,
        poly_fit_exists := True, optimal_polynomial_grade := Some 2,
        polynomials := Some [Polynomial [1] [0], Polynomial [1] [0]], fit_log := [2, 2]\<rparr>)"
  by (simp add: unbinned_fit_polynomials_def example_list_eq example_externals_def array_defs
      unbinned_channel_fit_def Let_def)

lemma arange_short: "np_arange 0 (1 / 5) (1 / 10) = [0, 1 / 10]"
  by (simp add: np_arange_def upt_conv_Cons)

lemma forced_binned_eval:
  "fit_polynomials example_externals
      (example_short\<lparr>poly_time_selections := Some [(0, 1 / 5)], user_poly_order := 2\<rparr>) =
     (Return (),
      example_short\<lparr>poly_time_selections := Some [(0, 1 / 5)], user_poly_order := 2,
        poly_fit_exists := True, optimal_polynomial_grade := Some 2,
        polynomials := Some [Polynomial [1] [0], Polynomial [1] [0]], fit_log := [2, 2]\<rparr>)"
  by (simp add: fit_polynomials_def example_short_eq example_externals_def array_defs
      binned_channel_fit_def Let_def arange_short np_histogram_def exposure_over_interval_def)


subsection \<open>A failed fit\<close>



subsection \<open>A forced polynomial order\<close>

text \<open>
  C6. With \<^verbatim>\<open>poly_order\<close> forced to \<open>k\<close> in \<open>[0, 4]\<close>, a background fit that returns, binned
  or unbinned, stores \<open>k\<close> as the optimal grade, and the only calls it makes to a fit
  objective are the per-channel fits of grade \<open>k\<close>, one per channel: the four fits of the
  degree selector are not made.
\<close>

theorem forced_order_is_used:
  assumes "0 \<le> k" and "k \<le> 4" and "user_poly_order self = k"
    and "fit_polynomials ext self = (Return (), s') \<or>
         unbinned_fit_polynomials ext self = (Return (), s')"
  shows "optimal_polynomial_grade s' = Some k \<and>
         fit_log s' = fit_log self @ replicate (length (channels self)) k"
proof -
  from assms(4) have "fit_shape self (Return ()) s'"
    by (auto dest: fit_polynomials_shape unbinned_fit_polynomials_shape)
  from fit_shape_Return [OF this] assms(1-3) show ?thesis
    by (auto simp: grade_ok_def selector_calls_def)
qed

theorem forced_order_is_used_witness:
  "fst (fit_polynomials example_externals
          (example_short\<lparr>poly_time_selections := Some [(0, 1 / 5)], user_poly_order := 2\<rparr>)) =
     Return () \<and>
   optimal_polynomial_grade (snd (fit_polynomials example_externals
          (example_short\<lparr>poly_time_selections := Some [(0, 1 / 5)], user_poly_order := 2\<rparr>))) =
     Some 2 \<and>
   fit_log (snd (fit_polynomials example_externals
          (example_short\<lparr>poly_time_selections := Some [(0, 1 / 5)], user_poly_order := 2\<rparr>))) =
     [2, 2] \<and>
   fst (unbinned_fit_polynomials example_externals
          (example_list\<lparr>poly_time_selections := Some [(0, 5)], user_poly_order := 2\<rparr>)) =
     Return () \<and>
   optimal_polynomial_grade (snd (unbinned_fit_polynomials example_externals
          (example_list\<lparr>poly_time_selections := Some [(0, 5)], user_poly_order := 2\<rparr>))) =
     Some 2 \<and>
   fit_log (snd (unbinned_fit_polynomials example_externals
          (example_list\<lparr>poly_time_selections := Some [(0, 5)], user_poly_order := 2\<rparr>))) =
     [2, 2]"
  using forced_order_is_used
    [of 2 "example_short\<lparr>poly_time_selections := Some [(0, 1 / 5)], user_poly_order := 2\<rparr>"
        example_externals
        "example_short\<lparr>poly_time_selections := Some [(0, 1 / 5)], user_poly_order := 2,
           poly_fit_exists := True, optimal_polynomial_grade := Some 2,
           polynomials := Some [Polynomial [1] [0], Polynomial [1] [0]], fit_log := [2, 2]\<rparr>"]
    forced_order_is_used
    [of 2 "example_list\<lparr>poly_time_selections := Some [(0, 5)], user_poly_order := 2\<rparr>"
        example_externals
        "example_list\<lparr>poly_time_selections := Some [(0, 5)], user_poly_order := 2,
           poly_fit_exists := True, optimal_polynomial_grade := Some 2,
           polynomials := Some [Polynomial [1] [0], Polynomial [1] [0]], fit_log := [2, 2]\<rparr>"]
  by (simp add: forced_binned_eval forced_unbinned_eval)

subsection \<open>Setting the polynomial order\<close>



subsection \<open>The degree selector\<close>









lemma binned_preparation_data:
  assumes "binned_preparation s = Inr (tpe, tpen, bins, cnts, mt, epb, nzm)"
  shows "\<exists>sels pm. background_mask s = Inr (sels, pm) \<and>
           tpe = select pm (arrival_times s) \<and> tpen = select pm (energies s) \<and>
           bins = np_arange (start_time s) (stop_time s) (1 / 10) \<and>
           np_histogram tpe bins = Inr cnts \<and> bin_loop s bins = Inr (mt, epb)"
  using assms
  by (auto simp: binned_preparation_def Let_def split: sum.splits prod.splits list.splits)






subsection \<open>Rates of the examples\<close>







subsection \<open>A missing dead-time array\<close>





















subsection \<open>The exposure of an active selection\<close>














lemma intervals_overlap_of_pairs:
  "intervals_overlap (map fst ivs) (map snd ivs) =
     (case ivs of
        [] \<Rightarrow> Inr None
      | iv # rest \<Rightarrow>
          Inr (Some (\<exists>iv'\<in>set rest. strictly_inside (fst iv') iv \<or> strictly_inside (snd iv') iv)))"
  by (cases ivs) (simp_all add: intervals_overlap_Nil intervals_overlap_Cons zip_map_fst_snd)







subsection \<open>What the overlap check computes\<close>

text \<open>
  X1. On a non-empty interval list the check returns whether a bound of one of the later
  intervals lies strictly inside the open range of the first interval: the later
  intervals are never compared with each other, and the first interval's own bounds are
  never tested against another range. On an empty list the loop body never runs and the
  function returns \<^verbatim>\<open>None\<close>.
\<close>

theorem overlap_check_first_interval_only:
  "intervals_overlap (a # tmin) (b # tmax) =
     Inr (Some (\<exists>iv\<in>set (zip tmin tmax).
                  strictly_inside (fst iv) (a, b) \<or> strictly_inside (snd iv) (a, b))) \<and>
   intervals_overlap [] tmax = Inr None"
  by (simp add: intervals_overlap_def upt_conv_Cons pop_def inner_loop_iff del: upt_Suc)

end
